theory Spec2Isabelle
  imports Complex_Main
begin

section \<open>Data model (types.ts)\<close>

text \<open>
  A JavaScript string is modelled as a \<^typ>\<open>string\<close>; a character stands for one code
  unit below 256. The \<open>type\<close> field of a file node has the single value \<open>'file'\<close>.
\<close>

datatype Sender = user | ai

record ChatMessage =
  sender :: Sender
  content :: string
  isError :: "bool option"

datatype log_type = type_log | type_warn | type_error | type_info

record ConsoleLog =
  type :: log_type
  message :: "string list"
  timestamp :: string

datatype file_type = file_node

record FileNode =
  name :: string
  content :: string
  type :: file_type

text \<open>
  \<open>CodenixServiceResponse\<close> is the tagged union
  \<open>{ success: true; message } | { success: false; error }\<close>.
\<close>

datatype CodenixServiceResponse = Success string | Failure string

section \<open>JavaScript library functions used by the code\<close>

subsection \<open>String.prototype.trim\<close>

text \<open>
  The white space and line terminator code units below 256: TAB, LF, VT, FF, CR, SPACE and
  NO-BREAK SPACE.
\<close>

definition is_white_space :: "char \<Rightarrow> bool" where
  "is_white_space c \<longleftrightarrow>
     c = CHR 0x09 \<or> c = CHR 0x0A \<or> c = CHR 0x0B \<or> c = CHR 0x0C \<or> c = CHR 0x0D \<or>
     c = CHR 0x20 \<or> c = CHR 0xA0"

definition trim :: "string \<Rightarrow> string" where
  "trim s = rev (dropWhile is_white_space (rev (dropWhile is_white_space s)))"

subsection \<open>endsWith, includes, replace with a string pattern, join\<close>

definition endsWith :: "string \<Rightarrow> string \<Rightarrow> bool" where
  "endsWith s suf \<longleftrightarrow> length suf \<le> length s \<and> drop (length s - length suf) s = suf"

definition startsWith :: "string \<Rightarrow> string \<Rightarrow> bool" where
  "startsWith s pre \<longleftrightarrow> take (length pre) s = pre"

fun includes_str :: "string \<Rightarrow> string \<Rightarrow> bool" where
  "includes_str [] pat = (pat = [])"
| "includes_str (c # cs) pat = (startsWith (c # cs) pat \<or> includes_str cs pat)"

text \<open>
  \<open>split_first s pat\<close> locates the first occurrence of \<open>pat\<close> in \<open>s\<close> and returns the text
  before it (\<open>preceding\<close>) and the text after it (\<open>following\<close>).
\<close>

fun split_first :: "string \<Rightarrow> string \<Rightarrow> (string \<times> string) option" where
  "split_first [] pat = (if pat = [] then Some ([], []) else None)"
| "split_first (c # cs) pat =
     (if startsWith (c # cs) pat then Some ([], drop (length pat) (c # cs))
      else (case split_first cs pat of
              None \<Rightarrow> None
            | Some (preceding, following) \<Rightarrow> Some (c # preceding, following)))"

text \<open>
  \<open>GetSubstitution\<close> for a string pattern (no capture groups, no named groups): in the
  replacement text \<open>$$\<close> stands for a dollar sign, \<open>$&\<close> for the matched text, \<open>$`\<close> for the
  text before the match and \<open>$'\<close> for the text after it; every other character, also a
  dollar sign followed by anything else, is copied.
\<close>

fun getSubstitution :: "string \<Rightarrow> string \<Rightarrow> string \<Rightarrow> string \<Rightarrow> string" where
  "getSubstitution matched preceding following (c # d # t) =
     (if c = CHR 0x24 \<and> d = CHR 0x24 then CHR 0x24 # getSubstitution matched preceding following t
      else if c = CHR 0x24 \<and> d = CHR 0x26 then matched @ getSubstitution matched preceding following t
      else if c = CHR 0x24 \<and> d = CHR 0x60 then preceding @ getSubstitution matched preceding following t
      else if c = CHR 0x24 \<and> d = CHR 0x27 then following @ getSubstitution matched preceding following t
      else c # getSubstitution matched preceding following (d # t))"
| "getSubstitution matched preceding following t = t"

definition replace :: "string \<Rightarrow> string \<Rightarrow> string \<Rightarrow> string" where
  "replace s pat replacement =
     (case split_first s pat of
        None \<Rightarrow> s
      | Some (preceding, following) \<Rightarrow> preceding @ getSubstitution pat preceding following replacement @ following)"

fun join :: "string \<Rightarrow> string list \<Rightarrow> string" where
  "join sep [] = []"
| "join sep [x] = x"
| "join sep (x # y # ys) = x @ sep @ join sep (y # ys)"

subsection \<open>Numbers as decimal text\<close>

fun show_nat :: "nat \<Rightarrow> string" where
  "show_nat n =
     (if n < 10 then [char_of (48 + n)] else show_nat (n div 10) @ [char_of (48 + n mod 10)])"

declare show_nat.simps [simp del]

subsection \<open>Parsed JSON values\<close>

text \<open>
  The value returned by \<open>response.json()\<close>. An object is the list of its own properties.
  The code only tests a number for being zero, so a number is an integer here.
\<close>

datatype json_value =
    JNull
  | JBool bool
  | JNumber int
  | JString string
  | JArray "json_value list"
  | JObject "(string \<times> json_value) list"

fun truthy :: "json_value \<Rightarrow> bool" where
  "truthy JNull = False"
| "truthy (JBool b) = b"
| "truthy (JNumber n) = (n \<noteq> 0)"
| "truthy (JString s) = (s \<noteq> [])"
| "truthy (JArray xs) = True"
| "truthy (JObject kvs) = True"

text \<open>\<open>rawData.answer\<close> on a truthy value; \<open>None\<close> is \<open>undefined\<close>.\<close>

fun answer_of :: "json_value \<Rightarrow> json_value option" where
  "answer_of (JObject kvs) = map_of kvs ''answer''"
| "answer_of v = None"

section \<open>The chat relay (services/codenixService.ts)\<close>

text \<open>
  A thrown value is an \<open>Error\<close> object with its message, or any other value. The network
  is a function from the request to what \<open>fetch\<close> does with it: it throws, or it resolves
  to a response with its \<open>ok\<close> flag, its status and the outcome of \<open>response.json()\<close>.
  The request body is the value handed to \<open>JSON.stringify\<close>.
\<close>

datatype js_exception = ErrorObject string | OtherValue

record Response =
  ok :: bool
  status :: nat
  json :: "js_exception + json_value"

record Request =
  url :: string
  "method" :: string
  headers :: "(string \<times> string) list"
  body :: json_value

type_synonym network = "Request \<Rightarrow> js_exception + Response"

definition systemPrompt :: "string \<Rightarrow> string" where
  \<open>systemPrompt prompt =
     ''You are Nix 1.5, an expert AI web developer. Your single purpose is to generate code based on the user's request.\<newline>User's request: "''
     @ prompt @
     ''"\<newline>Respond ONLY with the raw code for the user's request. Do NOT add any conversational text, explanations, or markdown formatting.''\<close>

definition webhook_request :: "string \<Rightarrow> string \<Rightarrow> Request" where
  "webhook_request ACTIVEPIECES_WEBHOOK_URL prompt =
     \<lparr>url = ACTIVEPIECES_WEBHOOK_URL, method = ''POST'',
      headers = [(''Content-Type'', ''application/json'')],
      body = JObject [(''question'', JString (systemPrompt prompt))]\<rparr>"

text \<open>
  The body of the \<open>try\<close> block: the requests it issued, and the value it returned
  (\<open>Inr\<close>) or threw (\<open>Inl\<close>).
\<close>

definition try_block :: "string \<Rightarrow> network \<Rightarrow> string \<Rightarrow> Request list \<times> (js_exception + CodenixServiceResponse)" where
  "try_block ACTIVEPIECES_WEBHOOK_URL fetch prompt =
     (let request = webhook_request ACTIVEPIECES_WEBHOOK_URL prompt in
      (case fetch request of
         Inl thrown \<Rightarrow> ([request], Inl thrown)
       | Inr response \<Rightarrow>
           if \<not> ok response
           then ([request], Inl (ErrorObject (''Webhook failed with status: '' @ show_nat (status response))))
           else (case json response of
                   Inl thrown \<Rightarrow> ([request], Inl thrown)
                 | Inr rawData \<Rightarrow>
                     (case (if truthy rawData then answer_of rawData else None) of
                        Some (JString answer) \<Rightarrow> ([request], Inr (Success (trim answer)))
                      | _ \<Rightarrow> ([request], Inr (Success ''Received an empty or unexpected response from the model.''))))))"

definition catch_block :: "js_exception \<Rightarrow> CodenixServiceResponse" where
  "catch_block thrown =
     Failure (case thrown of ErrorObject msg \<Rightarrow> msg | OtherValue \<Rightarrow> ''An unknown error occurred.'')"

definition sendMessageToModel :: "string \<Rightarrow> network \<Rightarrow> string \<Rightarrow> Request list \<times> CodenixServiceResponse" where
  "sendMessageToModel ACTIVEPIECES_WEBHOOK_URL fetch prompt =
     (case try_block ACTIVEPIECES_WEBHOOK_URL fetch prompt of
        (requests, Inr result) \<Rightarrow> (requests, result)
      | (requests, Inl thrown) \<Rightarrow> (requests, catch_block thrown))"

section \<open>The application state and its handlers (App component)\<close>

text \<open>
  The state variables of the \<open>App\<close> component. Pixel sizes are real numbers. Each handler
  is a function from the state in which it is called to the state after its updates; a
  handler that may call \<open>alert\<close> also returns the alert text.
\<close>

datatype Tab = preview | chat

record AppState =
  message :: string
  files :: "FileNode list"
  activeFile :: "string option"
  isLoading :: bool
  consoleLogs :: "ConsoleLog list"
  renamingFile :: "string option"
  chatHistory :: "ChatMessage list"
  activeTab :: Tab
  previewKey :: nat
  explorerWidth :: real
  rightPanelWidth :: real
  consoleHeight :: real
  isConsoleVisible :: bool
  isPreviewFullScreen :: bool

text \<open>The initial values of the state variables, in a window of the given inner width.\<close>

definition initial_state :: "real \<Rightarrow> AppState" where
  "initial_state innerWidth =
     \<lparr>message = [], files = [], activeFile = None, isLoading = False, consoleLogs = [],
      renamingFile = None,
      chatHistory = [\<lparr>sender = ai,
        ChatMessage.content = ''Hello! I'm Nix 1.5. Describe the website you want to build, or ask me anything.'',
        isError = None\<rparr>],
      activeTab = chat, previewKey = 0,
      explorerWidth = 256, rightPanelWidth = innerWidth * 0.33, consoleHeight = 0,
      isConsoleVisible = False, isPreviewFullScreen = False\<rparr>"

definition handleFileSelect :: "string \<Rightarrow> AppState \<Rightarrow> AppState" where
  "handleFileSelect fileName s = s\<lparr>activeFile := Some fileName\<rparr>"

text \<open>\<open>!activeFile\<close>: \<open>null\<close> and the empty string are falsy.\<close>

definition falsy :: "string option \<Rightarrow> bool" where
  "falsy v \<longleftrightarrow> v = None \<or> v = Some []"

definition handleContentChange :: "string \<Rightarrow> AppState \<Rightarrow> AppState" where
  "handleContentChange newContent s =
     (if falsy (activeFile s) then s
      else s\<lparr>files := map (\<lambda>file. if Some (name file) = activeFile s
                                   then file\<lparr>content := newContent\<rparr> else file) (files s)\<rparr>)"

text \<open>
  \<open>handleSendMessage\<close>, run from the state in which it is called to the state after the
  awaited response has been handled, with no other event in between. It also returns the
  requests issued.
\<close>

definition handleSendMessage :: "string \<Rightarrow> network \<Rightarrow> AppState \<Rightarrow> Request list \<times> AppState" where
  "handleSendMessage ACTIVEPIECES_WEBHOOK_URL fetch s =
     (if trim (message s) = [] then ([], s)
      else
        let userMessage = \<lparr>sender = user, ChatMessage.content = message s, isError = None\<rparr>;
            s1 = s\<lparr>chatHistory := chatHistory s @ [userMessage], message := [], isLoading := True\<rparr>;
            (requests, response) = sendMessageToModel ACTIVEPIECES_WEBHOOK_URL fetch (message s);
            s2 = s1\<lparr>isLoading := False\<rparr>
        in (case response of
              Failure err \<Rightarrow>
                (requests,
                 s2\<lparr>chatHistory := chatHistory s2 @
                       [\<lparr>sender = ai, ChatMessage.content = err, isError = Some True\<rparr>],
                    isConsoleVisible := True, consoleHeight := 192, activeTab := chat\<rparr>)
            | Success aiResponseContent \<Rightarrow>
                let contentFile = \<lparr>name = ''content'', content = aiResponseContent, type = file_node\<rparr>;
                    otherFiles = filter (\<lambda>f. name f \<noteq> ''content'') (files s2)
                in (requests,
                    s2\<lparr>chatHistory := chatHistory s2 @
                          [\<lparr>sender = ai, ChatMessage.content = aiResponseContent, isError = None\<rparr>],
                       files := otherFiles @ [contentFile],
                       activeFile := Some ''content'', activeTab := preview\<rparr>)))"


definition handleRenameFile :: "string \<Rightarrow> string \<Rightarrow> AppState \<Rightarrow> string option \<times> AppState" where
  \<open>handleRenameFile oldName newName s =
     (let trimmedNewName = trim newName in
      if trimmedNewName = [] \<or> trimmedNewName = oldName then (None, s\<lparr>renamingFile := None\<rparr>)
      else if list_ex (\<lambda>f. name f = trimmedNewName) (files s)
      then (Some (''A file named "'' @ trimmedNewName @ ''" already exists.''), s)
      else (None,
            s\<lparr>files := map (\<lambda>f. if name f = oldName then f\<lparr>name := trimmedNewName\<rparr> else f) (files s),
              activeFile := (if activeFile s = Some oldName then Some trimmedNewName else activeFile s),
              renamingFile := None\<rparr>))\<close>

subsection \<open>The preview composer\<close>

definition previewContent :: "FileNode list \<Rightarrow> string" where
  \<open>previewContent fs =
     (case (case find (\<lambda>f. name f = ''content'') fs of
              Some f \<Rightarrow> Some f
            | None \<Rightarrow> find (\<lambda>f. endsWith (name f) ''.html'') fs) of
        None \<Rightarrow> ''<h1>No HTML file found to preview.</h1>''
      | Some htmlFile \<Rightarrow>
          let cssFiles = filter (\<lambda>f. endsWith (name f) ''.css'') fs;
              jsFiles = filter (\<lambda>f. endsWith (name f) ''.js'') fs;
              styles = join ''\<newline>'' (map (\<lambda>f. ''<style>'' @ content f @ ''</style>'') cssFiles);
              scripts = join ''\<newline>''
                 (map (\<lambda>f. ''<script type="module">'' @ content f @ ''</script>'') jsFiles);
              finalHtml = content htmlFile;
              finalHtml1 = (if includes_str finalHtml ''</head>''
                            then replace finalHtml ''</head>'' (styles @ ''\<newline></head>'')
                            else finalHtml @ styles);
              finalHtml2 = (if includes_str finalHtml1 ''</body>''
                            then replace finalHtml1 ''</body>'' (scripts @ ''\<newline></body>'')
                            else finalHtml1 @ scripts)
          in finalHtml2)\<close>

subsection \<open>Panel resizing\<close>

text \<open>
  One mouse move on a divider calls the \<open>onDrag\<close> of that divider with the mouse deltas:
  the explorer divider and the right panel divider use \<open>dx\<close>, the console divider \<open>dy\<close>.
\<close>

datatype drag = ExplorerDrag real | RightPanelDrag real | ConsoleDrag real

fun onDrag :: "AppState \<Rightarrow> drag \<Rightarrow> AppState" where
  "onDrag s (ExplorerDrag dx) = s\<lparr>explorerWidth := max 200 (explorerWidth s + dx)\<rparr>"
| "onDrag s (RightPanelDrag dx) = s\<lparr>rightPanelWidth := max 200 (rightPanelWidth s - dx)\<rparr>"
| "onDrag s (ConsoleDrag dy) = s\<lparr>consoleHeight := max 0 (consoleHeight s - dy)\<rparr>"

definition drags :: "AppState \<Rightarrow> drag list \<Rightarrow> AppState" where
  "drags s ds = foldl onDrag s ds"

section \<open>Concrete scenarios\<close>

text \<open>A webhook address, some behaviours of the network and some states of the workspace.\<close>

definition example_url :: string where
  "example_url = ''https://webhook.example/hook''"

definition offline_network :: network where
  "offline_network request = Inl (ErrorObject ''Failed to fetch'')"



definition answering_network :: network where
  "answering_network request =
     Inr \<lparr>ok = True, status = 200,
          json = Inr (JObject [(''answer'', JString ''  <h1>Hi</h1>\<newline>'')])\<rparr>"

definition typing_state :: AppState where
  "typing_state = (initial_state 1280)\<lparr>message := ''make a page''\<rparr>"

definition project_files :: "FileNode list" where
  \<open>project_files =
     [\<lparr>name = ''content'', content = ''old'', type = file_node\<rparr>,
      \<lparr>name = ''style.css'', content = ''h1 { color: red; }'', type = file_node\<rparr>]\<close>

definition project_state :: AppState where
  "project_state = (initial_state 1280)\<lparr>message := ''make a page'', files := project_files,
     activeFile := Some ''style.css''\<rparr>"

definition shop_files :: "FileNode list" where
  \<open>shop_files =
     [\<lparr>name = ''content'', content = ''<html><body><h1>Shop</h1></body></html>'', type = file_node\<rparr>,
      \<lparr>name = ''app.js'', content = ''const currency = '$';'', type = file_node\<rparr>]\<close>

definition narrow_window_state :: AppState where
  "narrow_window_state = initial_state 500"

section \<open>Properties of the library functions\<close>

lemma trim_decompose:
  "\<exists>l r. s = l @ trim s @ r \<and> list_all is_white_space l \<and> list_all is_white_space r"
proof -
  let ?l = "takeWhile is_white_space s"
  let ?m = "dropWhile is_white_space s"
  let ?r = "rev (takeWhile is_white_space (rev ?m))"
  have "rev ?m = takeWhile is_white_space (rev ?m) @ dropWhile is_white_space (rev ?m)"
    by simp
  then have "?m = trim s @ ?r"
    unfolding trim_def by (metis rev_append rev_rev_ident)
  then have "s = ?l @ trim s @ ?r"
    by (metis takeWhile_dropWhile_id)
  moreover have "list_all is_white_space ?l"
    by (simp add: list_all_iff) (meson set_takeWhileD)
  moreover have "list_all is_white_space ?r"
    by (simp add: list_all_iff) (meson set_takeWhileD)
  ultimately show ?thesis by blast
qed

lemma trim_ends:
  "trim s \<noteq> [] \<Longrightarrow> \<not> is_white_space (hd (trim s)) \<and> \<not> is_white_space (last (trim s))"
proof
  assume ne: "trim s \<noteq> []"
  let ?m = "dropWhile is_white_space s"
  let ?d = "dropWhile is_white_space (rev ?m)"
  have d: "?d \<noteq> []" using ne by (simp add: trim_def)
  then have "\<not> is_white_space (hd ?d)" by (rule hd_dropWhile)
  then show "\<not> is_white_space (last (trim s))"
    using d by (simp add: trim_def last_rev)
  have m: "?m \<noteq> []"
  proof
    assume a: "?m = []"
    have "?d = []" unfolding a by simp
    with d show False by simp
  qed
  then have hm: "\<not> is_white_space (hd ?m)" by (rule hd_dropWhile)
  have "\<exists>r. ?m = trim s @ r" unfolding trim_def
    by (metis takeWhile_dropWhile_id rev_append rev_rev_ident)
  then obtain r where "?m = trim s @ r" ..
  then have "hd ?m = hd (trim s)" using ne by (metis hd_append2)
  then show "\<not> is_white_space (hd (trim s))" using hm by simp
qed

lemma trim_example: "trim ''  <h1>Hi</h1>\<newline>'' = ''<h1>Hi</h1>''"
  by (simp add: trim_def is_white_space_def)

section \<open>The chat relay\<close>

lemma sendMessageToModel_ok_json:
  assumes "fetch (webhook_request u prompt) = Inr r" "ok r" "json r = Inr rawData"
  shows "snd (sendMessageToModel u fetch prompt) =
           (case (if truthy rawData then answer_of rawData else None) of
              Some (JString answer) \<Rightarrow> Success (trim answer)
            | _ \<Rightarrow> Success ''Received an empty or unexpected response from the model.'')"
  using assms
  by (simp add: sendMessageToModel_def try_block_def Let_def
      split: option.splits json_value.splits)

lemma answer_of_string_iff:
  "answer_of rawData = Some (JString a) \<longleftrightarrow>
     (\<exists>kvs. rawData = JObject kvs \<and> map_of kvs ''answer'' = Some (JString a))"
  by (cases rawData) auto

lemma sendMessageToModel_failure:
  assumes "(\<exists>thrown. fetch (webhook_request u prompt) = Inl thrown) \<or>
           (\<exists>response. fetch (webhook_request u prompt) = Inr response \<and> \<not> ok response)"
  shows "\<exists>err. snd (sendMessageToModel u fetch prompt) = Failure err"
  using assms
  by (auto simp add: sendMessageToModel_def try_block_def catch_block_def Let_def)

text \<open>
  Claim C1, as the code has it. Whatever the network does, \<open>sendMessageToModel\<close> issues
  exactly one request and never a second one: a POST to the webhook address with the header
  \<open>Content-Type: application/json\<close> and the body \<open>{ "question": q }\<close>, where \<open>q\<close> is a fixed
  instruction text with the prompt inserted in it between double quotes.
\<close>

theorem sendMessageToModel_one_post:
  \<open>fst (sendMessageToModel ACTIVEPIECES_WEBHOOK_URL fetch prompt) =
     [\<lparr>url = ACTIVEPIECES_WEBHOOK_URL, method = ''POST'',
       headers = [(''Content-Type'', ''application/json'')],
       body = JObject [(''question'', JString (
         ''You are Nix 1.5, an expert AI web developer. Your single purpose is to generate code based on the user's request.\<newline>User's request: "''
         @ prompt @
         ''"\<newline>Respond ONLY with the raw code for the user's request. Do NOT add any conversational text, explanations, or markdown formatting.''))]\<rparr>]\<close>
  by (simp add: sendMessageToModel_def try_block_def webhook_request_def systemPrompt_def Let_def
      split: sum.splits option.splits json_value.splits)

text \<open>
  Claim C1 as stated, with \<open>q\<close> the user's message itself, fails: for the message \<open>hi\<close> the
  body of the request is not \<open>{ "question": "hi" }\<close>.
\<close>

theorem question_is_not_bare_message:
  "map body (fst (sendMessageToModel example_url offline_network ''hi'')) \<noteq>
     [JObject [(''question'', JString ''hi'')]]"
  by (simp add: sendMessageToModel_def try_block_def webhook_request_def systemPrompt_def Let_def
      offline_network_def)

text \<open>
  Claim C3. When the response is ok and its body parses to \<open>rawData\<close>: if \<open>rawData\<close> is an
  object whose field \<open>answer\<close> is a string, the result is a success whose message is that
  string trimmed, that is, the string without a leading and a trailing run of white space;
  otherwise (no such field, a field of another type, or a body that is not an object) the
  result is still a success, with the fixed placeholder message.
\<close>

theorem sendMessageToModel_answer:
  assumes "fetch (webhook_request ACTIVEPIECES_WEBHOOK_URL prompt) = Inr response"
    and "ok response"
    and "json response = Inr rawData"
  shows "(\<forall>kvs answer. rawData = JObject kvs \<and> map_of kvs ''answer'' = Some (JString answer) \<longrightarrow>
            snd (sendMessageToModel ACTIVEPIECES_WEBHOOK_URL fetch prompt) = Success (trim answer) \<and>
            (\<exists>l r. answer = l @ trim answer @ r \<and>
                   list_all is_white_space l \<and> list_all is_white_space r) \<and>
            (trim answer \<noteq> [] \<longrightarrow>
               \<not> is_white_space (hd (trim answer)) \<and> \<not> is_white_space (last (trim answer)))) \<and>
         ((\<nexists>kvs answer. rawData = JObject kvs \<and> map_of kvs ''answer'' = Some (JString answer)) \<longrightarrow>
            snd (sendMessageToModel ACTIVEPIECES_WEBHOOK_URL fetch prompt) =
              Success ''Received an empty or unexpected response from the model.'')"
proof (intro conjI allI impI)
  fix kvs answer
  assume "rawData = JObject kvs \<and> map_of kvs ''answer'' = Some (JString answer)"
  then show "snd (sendMessageToModel ACTIVEPIECES_WEBHOOK_URL fetch prompt) = Success (trim answer)"
    using sendMessageToModel_ok_json [of fetch ACTIVEPIECES_WEBHOOK_URL prompt response rawData, OF assms]
    by simp
  show "\<exists>l r. answer = l @ trim answer @ r \<and> list_all is_white_space l \<and> list_all is_white_space r"
    by (rule trim_decompose)
  assume "trim answer \<noteq> []"
  then show "\<not> is_white_space (hd (trim answer))" "\<not> is_white_space (last (trim answer))"
    using trim_ends by simp_all
next
  assume no: "\<nexists>kvs answer. rawData = JObject kvs \<and> map_of kvs ''answer'' = Some (JString answer)"
  then have "\<And>a. answer_of rawData \<noteq> Some (JString a)"
    by (simp add: answer_of_string_iff)
  then show "snd (sendMessageToModel ACTIVEPIECES_WEBHOOK_URL fetch prompt) =
      Success ''Received an empty or unexpected response from the model.''"
    using sendMessageToModel_ok_json [of fetch ACTIVEPIECES_WEBHOOK_URL prompt response rawData, OF assms]
    by (auto split: option.splits json_value.splits)
qed

text \<open>
  Claim C3 at a concrete response: the answer \<open>"  <h1>Hi</h1>\n"\<close> gives the message
  \<open>"<h1>Hi</h1>"\<close>.
\<close>

theorem sendMessageToModel_answer_witness:
  "answering_network (webhook_request example_url ''hi'') =
     Inr \<lparr>ok = True, status = 200, json = Inr (JObject [(''answer'', JString ''  <h1>Hi</h1>\<newline>'')])\<rparr>
   \<and> snd (sendMessageToModel example_url answering_network ''hi'') = Success ''<h1>Hi</h1>''"
  using sendMessageToModel_answer [of answering_network example_url "''hi''"
      "\<lparr>ok = True, status = 200, json = Inr (JObject [(''answer'', JString ''  <h1>Hi</h1>\<newline>'')])\<rparr>"
      "JObject [(''answer'', JString ''  <h1>Hi</h1>\<newline>'')]"]
  by (simp add: answering_network_def trim_example)




section \<open>Sending a message\<close>

lemma handleSendMessage_Failure:
  assumes "trim (message s) \<noteq> []"
    and "snd (sendMessageToModel u fetch (message s)) = Failure err"
  shows "snd (handleSendMessage u fetch s) =
     s\<lparr>chatHistory := chatHistory s @
          [\<lparr>sender = user, ChatMessage.content = message s, isError = None\<rparr>,
           \<lparr>sender = ai, ChatMessage.content = err, isError = Some True\<rparr>],
       message := [], isLoading := False,
       isConsoleVisible := True, consoleHeight := 192, activeTab := chat\<rparr>"
  using assms
  by (cases "sendMessageToModel u fetch (message s)")
     (simp add: handleSendMessage_def Let_def)

lemma handleSendMessage_Success:
  assumes "trim (message s) \<noteq> []"
    and "snd (sendMessageToModel u fetch (message s)) = Success m"
  shows "snd (handleSendMessage u fetch s) =
     s\<lparr>chatHistory := chatHistory s @
          [\<lparr>sender = user, ChatMessage.content = message s, isError = None\<rparr>,
           \<lparr>sender = ai, ChatMessage.content = m, isError = None\<rparr>],
       message := [], isLoading := False,
       files := filter (\<lambda>f. name f \<noteq> ''content'') (files s) @
                [\<lparr>name = ''content'', content = m, type = file_node\<rparr>],
       activeFile := Some ''content'', activeTab := preview\<rparr>"
  using assms
  by (cases "sendMessageToModel u fetch (message s)")
     (simp add: handleSendMessage_def Let_def)

text \<open>
  Claim C2. When the message is not blank and \<open>fetch\<close> throws or the response is not ok,
  \<open>sendMessageToModel\<close> returns a failure with an error string; \<open>handleSendMessage\<close> appends
  the user's message and then that string, as a message of the AI flagged as an error, to
  the chat transcript, and leaves the file store and the active file as they were.
\<close>

theorem handleSendMessage_failed_send:
  assumes "trim (message s) \<noteq> []"
    and "(\<exists>thrown. fetch (webhook_request ACTIVEPIECES_WEBHOOK_URL (message s)) = Inl thrown) \<or>
         (\<exists>response. fetch (webhook_request ACTIVEPIECES_WEBHOOK_URL (message s)) = Inr response \<and>
                      \<not> ok response)"
  shows "\<exists>err. snd (sendMessageToModel ACTIVEPIECES_WEBHOOK_URL fetch (message s)) = Failure err \<and>
           chatHistory (snd (handleSendMessage ACTIVEPIECES_WEBHOOK_URL fetch s)) =
             chatHistory s @
               [\<lparr>sender = user, ChatMessage.content = message s, isError = None\<rparr>,
                \<lparr>sender = ai, ChatMessage.content = err, isError = Some True\<rparr>] \<and>
           files (snd (handleSendMessage ACTIVEPIECES_WEBHOOK_URL fetch s)) = files s \<and>
           activeFile (snd (handleSendMessage ACTIVEPIECES_WEBHOOK_URL fetch s)) = activeFile s"
proof -
  from assms(2) obtain err
    where err: "snd (sendMessageToModel ACTIVEPIECES_WEBHOOK_URL fetch (message s)) = Failure err"
    using sendMessageToModel_failure by blast
  show ?thesis
    using err handleSendMessage_Failure [OF assms(1) err] by simp
qed

text \<open>
  Claim C2 at a concrete state: the network is down while the user sends \<open>make a page\<close>.
\<close>

theorem handleSendMessage_failed_send_witness:
  "trim (message typing_state) \<noteq> [] \<and>
   chatHistory (snd (handleSendMessage example_url offline_network typing_state)) =
     chatHistory typing_state @
       [\<lparr>sender = user, ChatMessage.content = ''make a page'', isError = None\<rparr>,
        \<lparr>sender = ai, ChatMessage.content = ''Failed to fetch'', isError = Some True\<rparr>] \<and>
   files (snd (handleSendMessage example_url offline_network typing_state)) = [] \<and>
   activeFile (snd (handleSendMessage example_url offline_network typing_state)) = None"
proof -
  have t: "trim (message typing_state) \<noteq> []"
    by (simp add: typing_state_def initial_state_def trim_def is_white_space_def)
  have f: "snd (sendMessageToModel example_url offline_network (message typing_state)) =
      Failure ''Failed to fetch''"
    by (simp add: sendMessageToModel_def try_block_def catch_block_def Let_def offline_network_def)
  have "(\<exists>thrown. offline_network (webhook_request example_url (message typing_state)) = Inl thrown) \<or>
        (\<exists>response. offline_network (webhook_request example_url (message typing_state)) = Inr response \<and>
                      \<not> ok response)"
    by (simp add: offline_network_def)
  from handleSendMessage_failed_send [where s = typing_state and fetch = offline_network
      and ACTIVEPIECES_WEBHOOK_URL = example_url, OF t this] f t show ?thesis
    by (simp add: typing_state_def initial_state_def)
qed

text \<open>
  Claim C4. When the message is not blank and \<open>sendMessageToModel\<close> returns a success,
  \<open>handleSendMessage\<close> appends the user's message and then the response text, as a message
  of the AI, to the chat transcript; the file store becomes the files not named \<open>content\<close>,
  in their order and unchanged, followed by a file named \<open>content\<close> that holds the response
  text; and \<open>content\<close> becomes the active file.
\<close>

theorem handleSendMessage_successful_send:
  assumes "trim (message s) \<noteq> []"
    and "snd (sendMessageToModel ACTIVEPIECES_WEBHOOK_URL fetch (message s)) = Success aiResponseContent"
  shows "chatHistory (snd (handleSendMessage ACTIVEPIECES_WEBHOOK_URL fetch s)) =
           chatHistory s @
             [\<lparr>sender = user, ChatMessage.content = message s, isError = None\<rparr>,
              \<lparr>sender = ai, ChatMessage.content = aiResponseContent, isError = None\<rparr>] \<and>
         files (snd (handleSendMessage ACTIVEPIECES_WEBHOOK_URL fetch s)) =
           filter (\<lambda>f. name f \<noteq> ''content'') (files s) @
             [\<lparr>name = ''content'', content = aiResponseContent, type = file_node\<rparr>] \<and>
         activeFile (snd (handleSendMessage ACTIVEPIECES_WEBHOOK_URL fetch s)) = Some ''content'' \<and>
         filter (\<lambda>f. name f \<noteq> ''content'') (files (snd (handleSendMessage ACTIVEPIECES_WEBHOOK_URL fetch s))) =
           filter (\<lambda>f. name f \<noteq> ''content'') (files s)"
  using handleSendMessage_Success [OF assms] by simp

text \<open>
  Claim C4 at a concrete state: a project with an older \<open>content\<close> file and a style sheet.
\<close>

theorem handleSendMessage_successful_send_witness:
  "trim (message project_state) \<noteq> [] \<and>
   snd (sendMessageToModel example_url answering_network (message project_state)) = Success ''<h1>Hi</h1>'' \<and>
   files (snd (handleSendMessage example_url answering_network project_state)) =
     [\<lparr>name = ''style.css'', content = ''h1 { color: red; }'', type = file_node\<rparr>,
      \<lparr>name = ''content'', content = ''<h1>Hi</h1>'', type = file_node\<rparr>] \<and>
   activeFile (snd (handleSendMessage example_url answering_network project_state)) = Some ''content''"
proof -
  have t: "trim (message project_state) \<noteq> []"
    by (simp add: project_state_def initial_state_def trim_def is_white_space_def)
  have f: "snd (sendMessageToModel example_url answering_network (message project_state)) =
      Success ''<h1>Hi</h1>''"
    by (simp add: sendMessageToModel_def try_block_def Let_def answering_network_def trim_example)
  from handleSendMessage_successful_send [where s = project_state and fetch = answering_network
      and ACTIVEPIECES_WEBHOOK_URL = example_url, OF t f] f t show ?thesis
    by (simp add: project_state_def project_files_def initial_state_def)
qed

section \<open>The file store\<close>

lemma list_ex_name_iff: "list_ex (\<lambda>f. name f = n) fs \<longleftrightarrow> n \<in> name ` set fs"
  by (auto simp add: list_ex_iff)






lemma handleRenameFile_taken:
  "trim newName \<in> name ` set (files s) \<Longrightarrow>
   files (snd (handleRenameFile oldName newName s)) = files s \<and>
   activeFile (snd (handleRenameFile oldName newName s)) = activeFile s"
  by (simp add: handleRenameFile_def Let_def list_ex_name_iff)








text \<open>
  Claim C6. When \<open>oldName\<close> is the name of a file in the store and the trimmed new name is
  the name of another file in the store, \<open>handleRenameFile\<close> leaves the file store and the
  active file as they were; every file keeps its name and its content. The whole state is
  unchanged and the user is alerted that the name exists.
\<close>

theorem handleRenameFile_duplicate_rejected:
  assumes "oldName \<in> name ` set (files s)"
    and "\<exists>f \<in> set (files s). name f = trim newName \<and> name f \<noteq> oldName"
  shows \<open>files (snd (handleRenameFile oldName newName s)) = files s \<and>
         activeFile (snd (handleRenameFile oldName newName s)) = activeFile s \<and>
         (trim newName \<noteq> [] \<longrightarrow>
            handleRenameFile oldName newName s =
              (Some (''A file named "'' @ trim newName @ ''" already exists.''), s))\<close>
proof -
  from assms(2) obtain f where "f \<in> set (files s)" "name f = trim newName" "name f \<noteq> oldName"
    by blast
  then have taken: "trim newName \<in> name ` set (files s)" and "trim newName \<noteq> oldName"
    by force+
  then show ?thesis
    using handleRenameFile_taken [OF taken]
    by (simp add: handleRenameFile_def Let_def list_ex_name_iff)
qed

text \<open>
  Claim C6 at a concrete store: renaming \<open>style.css\<close> to \<open>content\<close>, typed with
  surrounding blanks, is rejected.
\<close>

theorem handleRenameFile_duplicate_rejected_witness:
  \<open>''style.css'' \<in> name ` set (files project_state) \<and>
   (\<exists>f \<in> set (files project_state). name f = trim '' content '' \<and> name f \<noteq> ''style.css'') \<and>
   handleRenameFile ''style.css'' '' content '' project_state =
     (Some ''A file named "content" already exists.'', project_state)\<close>
proof -
  have t: "trim '' content '' = ''content''"
    by (simp add: trim_def is_white_space_def)
  have a: "''style.css'' \<in> name ` set (files project_state)"
    by (simp add: project_state_def project_files_def)
  have b: "\<exists>f \<in> set (files project_state). name f = trim '' content '' \<and> name f \<noteq> ''style.css''"
    by (simp add: t project_state_def project_files_def)
  from handleRenameFile_duplicate_rejected [OF a b] a b show ?thesis
    by (simp add: t)
qed

text \<open>
  Claim C9. \<open>handleContentChange\<close> changes nothing but the file store, and in the store
  nothing but the content of the files whose name is the active file: the length of the
  store, the names and their order are unchanged, every file with another name is
  unchanged, and a file with the active name gets the new content and keeps the rest.
  When no file is active the state is returned as it was.
\<close>

theorem handleContentChange_frame:
  "length (files (handleContentChange newContent s)) = length (files s) \<and>
   map name (files (handleContentChange newContent s)) = map name (files s) \<and>
   (\<forall>i < length (files s).
      Some (name (files s ! i)) \<noteq> activeFile s \<longrightarrow>
        files (handleContentChange newContent s) ! i = files s ! i) \<and>
   (\<forall>i < length (files s).
      Some (name (files s ! i)) = activeFile s \<and> name (files s ! i) \<noteq> [] \<longrightarrow>
        files (handleContentChange newContent s) ! i = (files s ! i)\<lparr>content := newContent\<rparr>) \<and>
   (\<exists>fs. handleContentChange newContent s = s\<lparr>files := fs\<rparr>) \<and>
   (activeFile s = None \<longrightarrow> handleContentChange newContent s = s)"
proof -
  have names: "map name (files (handleContentChange newContent s)) = map name (files s)"
    by (simp add: handleContentChange_def comp_def if_distrib cong: if_cong)
  have "\<exists>fs. handleContentChange newContent s = s\<lparr>files := fs\<rparr>"
  proof (cases "falsy (activeFile s)")
    case True
    then have "handleContentChange newContent s = s\<lparr>files := files s\<rparr>"
      by (simp add: handleContentChange_def)
    then show ?thesis ..
  next
    case False
    then show ?thesis by (auto simp add: handleContentChange_def)
  qed
  then show ?thesis
    using names by (auto simp add: handleContentChange_def falsy_def)
qed

text \<open>
  Claim C9 at concrete states: with \<open>style.css\<close> active only its content changes, and with
  no active file nothing changes.
\<close>

theorem handleContentChange_frame_witness:
  "files (handleContentChange ''h1 { color: blue; }'' project_state) =
     [\<lparr>name = ''content'', content = ''old'', type = file_node\<rparr>,
      \<lparr>name = ''style.css'', content = ''h1 { color: blue; }'', type = file_node\<rparr>] \<and>
   handleContentChange ''text'' typing_state = typing_state"
proof -
  have n: "activeFile typing_state = None"
    by (simp add: typing_state_def initial_state_def)
  from handleContentChange_frame [of "''text''" typing_state] n
  have "handleContentChange ''text'' typing_state = typing_state" by simp
  then show ?thesis
    by (simp add: handleContentChange_def falsy_def project_state_def project_files_def)
qed

section \<open>The preview composer\<close>

lemma endsWith_simps:
  "endsWith ''content'' ''.css'' = False" "endsWith ''content'' ''.js'' = False"
  "endsWith ''app.js'' ''.css'' = False" "endsWith ''app.js'' ''.js'' = True"
  by (simp_all add: endsWith_def)

text \<open>
  Claim C7 at a concrete store: the designated HTML file \<open>content\<close> has a \<open></body>\<close> tag and
  the script \<open>app.js\<close> holds \<open>const currency = '$';\<close>. The composed document does not contain
  the script's text: \<open>replace\<close> reads the \<open>$'\<close> in it as the text after the match and puts
  \<open></html>\<close> in its place.
\<close>

theorem preview_corrupts_script:
  \<open>previewContent shop_files =
     ''<html><body><h1>Shop</h1><script type="module">const currency = '</html>;</script>\<newline></body></html>'' \<and>
   \<not> includes_str (previewContent shop_files) ''<script type="module">const currency = '$';</script>''\<close>
proof -
  have p: \<open>previewContent shop_files =
     ''<html><body><h1>Shop</h1><script type="module">const currency = '</html>;</script>\<newline></body></html>''\<close>
    by (simp add: previewContent_def shop_files_def endsWith_simps Let_def startsWith_def replace_def)
  show ?thesis unfolding p by (simp add: startsWith_def)
qed

section \<open>Panel resizing\<close>

lemma drags_snoc: "drags s (ds @ [d]) = onDrag (drags s ds) d"
  by (simp add: drags_def)

lemma explorerWidth_bound:
  "200 \<le> explorerWidth s \<or> (\<exists>dx. ExplorerDrag dx \<in> set ds) \<Longrightarrow> 200 \<le> explorerWidth (drags s ds)"
proof (induction ds rule: rev_induct)
  case Nil
  then show ?case by (simp add: drags_def)
next
  case (snoc d ds)
  then show ?case by (cases d) (auto simp add: drags_snoc)
qed

lemma rightPanelWidth_bound:
  "200 \<le> rightPanelWidth s \<or> (\<exists>dx. RightPanelDrag dx \<in> set ds) \<Longrightarrow>
   200 \<le> rightPanelWidth (drags s ds)"
proof (induction ds rule: rev_induct)
  case Nil
  then show ?case by (simp add: drags_def)
next
  case (snoc d ds)
  then show ?case by (cases d) (auto simp add: drags_snoc)
qed

lemma consoleHeight_bound:
  "0 \<le> consoleHeight s \<or> (\<exists>dy. ConsoleDrag dy \<in> set ds) \<Longrightarrow> 0 \<le> consoleHeight (drags s ds)"
proof (induction ds rule: rev_induct)
  case Nil
  then show ?case by (simp add: drags_def)
next
  case (snoc d ds)
  then show ?case by (cases d) (auto simp add: drags_snoc)
qed

text \<open>
  Claim C10, as the code has it. After any sequence of resize drags a panel size is at or
  above its lower bound if it was so before the sequence or if its own divider was dragged
  in the sequence: 200 pixels for the explorer width and the right panel width, 0 for the
  console height. From the initial state the explorer width and the console height are
  therefore always within their bounds, and the right panel width is at least 200 when a
  third of the window (\<open>window.innerWidth * 0.33\<close>) is at least 200 or when the right panel
  divider has been dragged.
\<close>

theorem resize_bounds:
  "(200 \<le> explorerWidth s \<or> (\<exists>dx. ExplorerDrag dx \<in> set ds) \<longrightarrow>
      200 \<le> explorerWidth (drags s ds)) \<and>
   (200 \<le> rightPanelWidth s \<or> (\<exists>dx. RightPanelDrag dx \<in> set ds) \<longrightarrow>
      200 \<le> rightPanelWidth (drags s ds)) \<and>
   (0 \<le> consoleHeight s \<or> (\<exists>dy. ConsoleDrag dy \<in> set ds) \<longrightarrow>
      0 \<le> consoleHeight (drags s ds)) \<and>
   200 \<le> explorerWidth (drags (initial_state innerWidth) ds) \<and>
   0 \<le> consoleHeight (drags (initial_state innerWidth) ds) \<and>
   (200 \<le> innerWidth * 0.33 \<or> (\<exists>dx. RightPanelDrag dx \<in> set ds) \<longrightarrow>
      200 \<le> rightPanelWidth (drags (initial_state innerWidth) ds))"
proof (intro conjI impI)
  show "200 \<le> explorerWidth (drags (initial_state innerWidth) ds)"
    by (rule explorerWidth_bound) (simp add: initial_state_def)
  show "0 \<le> consoleHeight (drags (initial_state innerWidth) ds)"
    by (rule consoleHeight_bound) (simp add: initial_state_def)
  assume "200 \<le> innerWidth * 0.33 \<or> (\<exists>dx. RightPanelDrag dx \<in> set ds)"
  then show "200 \<le> rightPanelWidth (drags (initial_state innerWidth) ds)"
    by (intro rightPanelWidth_bound) (simp add: initial_state_def)
qed (erule explorerWidth_bound rightPanelWidth_bound consoleHeight_bound)+

text \<open>
  Claim C10 at a concrete sequence in a window 500 pixels wide: the right panel starts at
  165 pixels, and after a drag of each divider the three sizes are within their bounds.
\<close>

theorem resize_bounds_witness:
  "200 \<le> explorerWidth (drags narrow_window_state [ExplorerDrag (- 500), RightPanelDrag 40, ConsoleDrag 7]) \<and>
   200 \<le> rightPanelWidth (drags narrow_window_state [ExplorerDrag (- 500), RightPanelDrag 40, ConsoleDrag 7]) \<and>
   0 \<le> consoleHeight (drags narrow_window_state [ExplorerDrag (- 500), RightPanelDrag 40, ConsoleDrag 7])"
  using resize_bounds [of narrow_window_state "[ExplorerDrag (- 500), RightPanelDrag 40, ConsoleDrag 7]" 500]
  by (simp add: narrow_window_state_def initial_state_def)

text \<open>
  Claim C10 as stated, for any sequence of drags, fails: in a window 500 pixels wide the
  right panel starts at 165 pixels, and drags of the other two dividers leave it there.
\<close>

theorem narrow_window_right_panel:
  "rightPanelWidth (drags narrow_window_state [ExplorerDrag 10, ConsoleDrag (- 50)]) < 200"
  by (simp add: drags_def narrow_window_state_def initial_state_def)

end
